theory Spec2Isabelle
  imports Main "HOL-Library.Sublist"
begin

section \<open>The SRS RAN simulator charm (src/charm.py)\<close>

text \<open>
  A shallow embedding of \<^verbatim>\<open>SrsLteCharm\<close>. The stored state is a record, the event
  handlers are functions from the charm before the event to the charm after it, every
  call that leaves the charm (a file written, a systemd command, a shell command) is
  appended to a trace, and an exception is the left injection of a sum, carrying the
  charm as it was when the exception was raised.
\<close>

subsection \<open>Module constants\<close>

definition APT_REQUIREMENTS :: "string list" where
  "APT_REQUIREMENTS =
     [''git'', ''libzmq3-dev'', ''cmake'', ''build-essential'', ''libmbedtls-dev'',
      ''libboost-program-options-dev'', ''libsctp-dev'', ''libconfig++-dev'',
      ''libfftw3-dev'', ''net-tools'']"

definition GIT_REPO :: string where
  "GIT_REPO = ''https://github.com/srsLTE/srsLTE.git''"

definition GIT_REPO_TAG :: string where
  "GIT_REPO_TAG = ''release_20_10''"

definition SRC_PATH :: string where
  "SRC_PATH = ''/srsLTE''"

definition BUILD_PATH :: string where
  "BUILD_PATH = ''/build''"

definition CONFIG_PATH :: string where
  "CONFIG_PATH = ''/config''"

definition SERVICE_PATH :: string where
  "SERVICE_PATH = ''/service''"

text \<open>The two dictionaries of paths, as association lists in the order of the source.\<close>

definition CONFIG_PATHS :: "(string \<times> string) list" where
  "CONFIG_PATHS =
     [(''enb'', CONFIG_PATH @ ''/enb.conf''),
      (''drb'', CONFIG_PATH @ ''/drb.conf''),
      (''rr'', CONFIG_PATH @ ''/rr.conf''),
      (''sib'', CONFIG_PATH @ ''/sib.conf''),
      (''sib.mbsfn'', CONFIG_PATH @ ''/sib.mbsfn.conf''),
      (''ue'', CONFIG_PATH @ ''/ue.conf'')]"

definition CONFIG_ORIGIN_PATHS :: "(string \<times> string) list" where
  "CONFIG_ORIGIN_PATHS =
     [(''enb'', SRC_PATH @ ''/srsenb/enb.conf.example''),
      (''drb'', SRC_PATH @ ''/srsenb/drb.conf.example''),
      (''rr'', SRC_PATH @ ''/srsenb/rr.conf.example''),
      (''sib'', SRC_PATH @ ''/srsenb/sib.conf.example''),
      (''sib.mbsfn'', SRC_PATH @ ''/srsenb/sib.conf.mbsfn.example''),
      (''ue'', SRC_PATH @ ''/srsue/ue.conf.example'')]"

text \<open>
  \<^verbatim>\<open>CONFIG_PATHS["rr"]\<close>: the keys the source looks up are all in the dictionary, so
  the lookup is written for the literal keys only.
\<close>

definition config_path :: "string \<Rightarrow> string" where
  "config_path k = (case map_of CONFIG_PATHS k of Some p \<Rightarrow> p | None \<Rightarrow> [])"

definition SRS_ENB_SERVICE :: string where
  "SRS_ENB_SERVICE = ''srsenb''"

definition SRS_ENB_BINARY :: string where
  "SRS_ENB_BINARY = BUILD_PATH @ ''/srsenb/src/srsenb''"

definition SRS_ENB_SERVICE_TEMPLATE :: string where
  "SRS_ENB_SERVICE_TEMPLATE = ''./templates/srsenb.service''"

definition SRS_ENB_SERVICE_PATH :: string where
  "SRS_ENB_SERVICE_PATH = ''/etc/systemd/system/srsenb.service''"

definition SRS_UE_SERVICE :: string where
  "SRS_UE_SERVICE = ''srsue''"

definition SRS_UE_BINARY :: string where
  "SRS_UE_BINARY = BUILD_PATH @ ''/srsue/src/srsue''"

definition SRS_UE_SERVICE_TEMPLATE :: string where
  "SRS_UE_SERVICE_TEMPLATE = ''./templates/srsue.service''"

definition SRS_UE_SERVICE_PATH :: string where
  "SRS_UE_SERVICE_PATH = ''/etc/systemd/system/srsue.service''"

definition SRS_ENB_UE_BUILD_COMMAND :: string where
  "SRS_ENB_UE_BUILD_COMMAND =
     ''cd '' @ BUILD_PATH @ '' && cmake '' @ SRC_PATH @ '' && make -j `nproc` srsenb srsue''"

subsection \<open>The stored state\<close>

text \<open>
  \<^verbatim>\<open>self._stored\<close>, with the fields and defaults of \<^verbatim>\<open>set_default\<close> in
  \<^verbatim>\<open>__init__\<close>. A field that holds \<^verbatim>\<open>None\<close> or a string is a \<open>string option\<close>.
\<close>

record stored_state =
  mme_addr :: "string option"
  bind_addr :: "string option"
  ue_usim_imsi :: "string option"
  ue_usim_k :: "string option"
  ue_usim_opc :: "string option"
  installed :: bool
  started :: bool
  ue_attached :: bool

definition stored_default :: stored_state where
  "stored_default =
     \<lparr>mme_addr = None, bind_addr = None, ue_usim_imsi = None, ue_usim_k = None,
      ue_usim_opc = None, installed = False, started = False, ue_attached = False\<rparr>"

text \<open>
  Python's truth value of an optional string, as in \<^verbatim>\<open>if self._stored.mme_addr:\<close>:
  \<^verbatim>\<open>None\<close> and the empty string are false.
\<close>

fun truthy :: "string option \<Rightarrow> bool" where
  "truthy None = False"
| "truthy (Some v) = (v \<noteq> [])"

text \<open>What an f-string prints for an optional string: \<^verbatim>\<open>None\<close> prints as its name.\<close>

fun fmt :: "string option \<Rightarrow> string" where
  "fmt None = ''None''"
| "fmt (Some v) = v"

text \<open>
  The charm's configuration, \<^verbatim>\<open>self.config\<close>: a dictionary from option names to
  values. Each value is represented by the text \<^verbatim>\<open>str\<close> gives for it, which is all
  the charm uses of it; \<^verbatim>\<open>.get\<close> of a missing option is \<^verbatim>\<open>None\<close>.
\<close>

type_synonym config = "string \<rightharpoonup> string"

subsection \<open>The command builders\<close>

text \<open>\<^verbatim>\<open>" ".join(parts)\<close>\<close>

fun join :: "string \<Rightarrow> string list \<Rightarrow> string" where
  "join sep [] = []"
| "join sep [x] = x"
| "join sep (x # y # ys) = x @ sep @ join sep (y # ys)"

text \<open>
  The list \<^verbatim>\<open>srsenb_command\<close> that \<^verbatim>\<open>_get_srsenb_command\<close> builds by appending,
  and the string it returns.
\<close>

definition srsenb_command :: "config \<Rightarrow> stored_state \<Rightarrow> string list" where
  "srsenb_command cfg s =
     [SRS_ENB_BINARY]
     @ (if truthy (mme_addr s) then [''--enb.mme_addr='' @ fmt (mme_addr s)] else [])
     @ (if truthy (bind_addr s)
        then [''--enb.gtp_bind_addr='' @ fmt (bind_addr s),
              ''--enb.s1c_bind_addr='' @ fmt (bind_addr s)]
        else [])
     @ [''--enb.name='' @ fmt (cfg ''enb-name''),
        ''--enb.mcc='' @ fmt (cfg ''enb-mcc''),
        ''--enb.mnc='' @ fmt (cfg ''enb-mnc''),
        ''--enb_files.rr_config='' @ config_path ''rr'',
        ''--enb_files.sib_config='' @ config_path ''sib'',
        ''--enb_files.drb_config='' @ config_path ''drb'',
        config_path ''enb'',
        ''--rf.device_name='' @ fmt (cfg ''enb-rf-device-name''),
        ''--rf.device_args='' @ fmt (cfg ''enb-rf-device-args'')]"

definition get_srsenb_command :: "config \<Rightarrow> stored_state \<Rightarrow> string" where
  "get_srsenb_command cfg s = join '' '' (srsenb_command cfg s)"

text \<open>The same for \<^verbatim>\<open>_get_srsue_command\<close>: one test, on the IMSI, guards all three flags.\<close>

definition srsue_command :: "config \<Rightarrow> stored_state \<Rightarrow> string list" where
  "srsue_command cfg s =
     [SRS_UE_BINARY]
     @ (if truthy (ue_usim_imsi s)
        then [''--usim.imsi='' @ fmt (ue_usim_imsi s),
              ''--usim.k='' @ fmt (ue_usim_k s),
              ''--usim.opc='' @ fmt (ue_usim_opc s)]
        else [])
     @ [''--usim.algo='' @ fmt (cfg ''ue-usim-algo''),
        ''--nas.apn='' @ fmt (cfg ''ue-nas-apn''),
        ''--rf.device_name='' @ fmt (cfg ''ue-device-name''),
        ''--rf.device_args='' @ fmt (cfg ''ue-device-args''),
        config_path ''ue'']"

definition get_srsue_command :: "config \<Rightarrow> stored_state \<Rightarrow> string" where
  "get_srsue_command cfg s = join '' '' (srsue_command cfg s)"



subsection \<open>Status\<close>

datatype status = MaintenanceStatus string | ActiveStatus string

fun status_message :: "status \<Rightarrow> string" where
  "status_message (MaintenanceStatus m) = m"
| "status_message (ActiveStatus m) = m"

subsection \<open>What the charm calls outside itself\<close>

text \<open>
  The calls that reach the machine, in the order made. The four systemd commands record
  the name of the service and what the command reported.
\<close>

datatype call =
    UpdateAptCache
  | InstallAptPackage string
  | Rmtree string
  | Mkdir string
  | GitClone string string string nat
  | Shell string
  | CopyFiles "(string \<times> string) list" "(string \<times> string) list"
  | WriteFile string string
  | SystemctlDaemonReload
  | ServiceEnable string bool
  | ServiceStart string bool
  | ServiceStop string bool
  | ServiceRestart string bool
  | SetResults string string

text \<open>
  \<^verbatim>\<open>jinja2.Template(text).render(command=command)\<close>. jinja2 is a library, not part of
  this repository; the embedding covers the templates made of literal text and of
  \<^verbatim>\<open>{{ name }}\<close> outputs of a bare variable, already parsed. A name is looked up
  in what the charm passes, which is \<^verbatim>\<open>command\<close> alone, and then among the names
  the library defines by itself: its default globals and \<^verbatim>\<open>self\<close>. The charm builds
  the template with the library's default \<^verbatim>\<open>Undefined\<close>, so that any other name
  prints as the empty string.
\<close>

datatype piece = Text string | Var string

type_synonym template = "piece list"

definition jinja_own_names :: "string list" where
  "jinja_own_names =
     [''range'', ''dict'', ''lipsum'', ''cycler'', ''joiner'', ''namespace'', ''self'']"

text \<open>
  The names a \<open>Var\<close> can carry are those the library's parser reads as a variable: an
  identifier that is not a word of its expression language (the constants
  \<^verbatim>\<open>true\<close>, \<^verbatim>\<open>false\<close>, \<^verbatim>\<open>none\<close>, in either case, and the operators).
\<close>

definition reserved_words :: "string list" where
  "reserved_words =
     [''true'', ''false'', ''none'', ''True'', ''False'', ''None'',
      ''not'', ''and'', ''or'', ''in'', ''is'', ''if'', ''else'']"

definition name_start :: "char \<Rightarrow> bool" where
  "name_start c = (c \<in> set ''abcdefghijklmnopqrstuvwxyzABCDEFGHIJKLMNOPQRSTUVWXYZ_'')"

definition name_char :: "char \<Rightarrow> bool" where
  "name_char c = (name_start c \<or> c \<in> set ''0123456789'')"

definition is_identifier :: "string \<Rightarrow> bool" where
  "is_identifier n = (case n of [] \<Rightarrow> False | c # cs \<Rightarrow> name_start c \<and> list_all name_char cs)"

definition variable_name :: "string \<Rightarrow> bool" where
  "variable_name n = (is_identifier n \<and> n \<notin> set reserved_words)"

text \<open>
  \<open>own_text\<close> is what the library prints for a name of its own (for \<^verbatim>\<open>range\<close>,
  the text \<^verbatim>\<open><class 'range'>\<close>); it is a parameter.
\<close>

fun render_piece :: "(string \<Rightarrow> string) \<Rightarrow> string \<Rightarrow> piece \<Rightarrow> string" where
  "render_piece own_text command (Text t) = t"
| "render_piece own_text command (Var n) =
     (if n = ''command'' then command
      else if n \<in> set jinja_own_names then own_text n
      else [])"

definition render :: "(string \<Rightarrow> string) \<Rightarrow> template \<Rightarrow> string \<Rightarrow> string" where
  "render own_text t command = concat (map (render_piece own_text command) t)"

text \<open>
  Modelled from the spec: the helpers of \<^verbatim>\<open>utils.py\<close>, which is not among the
  sources. They are the fields of an environment the handlers take as a parameter.
  \<^item> \<open>is_ipv4\<close>: \<^verbatim>\<open>isIPv4(text) -> boolean\<close>; the charm passes it the result of
    \<^verbatim>\<open>.get("mme-addr")\<close>, which may be \<^verbatim>\<open>None\<close>.
  \<^item> \<open>service_active\<close>: \<^verbatim>\<open>serviceIsActive(name) -> boolean\<close>.
  \<^item> \<open>service_start\<close>, \<open>service_stop\<close>, \<open>service_restart\<close>, \<open>service_enable\<close>:
    \<^verbatim>\<open>serviceStart(name) / serviceStop(name) / serviceRestart(name) /
    serviceEnable(name) -> success/failure\<close>: the command reports success or failure
    as its result, which the charm does not read.
  \<^item> \<open>ip_from_iface\<close>, \<open>ip_from_default_iface\<close>: \<^verbatim>\<open>resolveBindAddress\<close>, with and
    without a subnet hint.
  \<^item> \<open>raises\<close>: whether one of the other calls (apt, git, the build, the copy, a
    directory created, a file written, the daemon reloaded, a shell command) fails,
    which is fatal to the handler.
  \<^item> \<open>template_files\<close>: the template files \<^verbatim>\<open>open\<close> finds, by path.
  \<^item> \<open>jinja_text\<close>: what the template library prints for the names of its own.
\<close>

record env =
  is_ipv4 :: "string option \<Rightarrow> bool"
  service_active :: "string \<Rightarrow> bool"
  service_start :: "string \<Rightarrow> bool"
  service_stop :: "string \<Rightarrow> bool"
  service_restart :: "string \<Rightarrow> bool"
  service_enable :: "string \<Rightarrow> bool"
  ip_from_iface :: "string \<Rightarrow> string option"
  ip_from_default_iface :: "string option"
  raises :: "call \<Rightarrow> bool"
  template_files :: "string \<rightharpoonup> template"
  jinja_text :: "string \<Rightarrow> string"

subsection \<open>The charm and its handlers\<close>

record charm =
  stored :: stored_state
  unit_status :: status
  calls :: "call list"

datatype error = FileNotFoundError string | KeyError string | CallError call

text \<open>A handler returns the charm, or raises: the error and the charm at that point.\<close>

type_synonym result = "(error \<times> charm) + charm"

definition andthen :: "result \<Rightarrow> (charm \<Rightarrow> result) \<Rightarrow> result" where
  "andthen r f = (case r of Inl e \<Rightarrow> Inl e | Inr w \<Rightarrow> f w)"

definition completed :: "result \<Rightarrow> bool" where
  "completed r = (case r of Inl e \<Rightarrow> False | Inr w \<Rightarrow> True)"

definition outcome :: "result \<Rightarrow> charm" where
  "outcome r = (case r of Inl (e, w) \<Rightarrow> w | Inr w \<Rightarrow> w)"

definition set_status :: "status \<Rightarrow> charm \<Rightarrow> charm" where
  "set_status st w = w\<lparr>unit_status := st\<rparr>"

definition record_call :: "call \<Rightarrow> charm \<Rightarrow> charm" where
  "record_call c w = w\<lparr>calls := calls w @ [c]\<rparr>"

definition ext :: "env \<Rightarrow> call \<Rightarrow> charm \<Rightarrow> result" where
  "ext env c w =
     (if raises env c then Inl (CallError c, record_call c w) else Inr (record_call c w))"

text \<open>\<^verbatim>\<open>_get_current_status\<close>: the message is assigned, overwritten and appended to.\<close>

definition get_current_status :: "env \<Rightarrow> stored_state \<Rightarrow> status" where
  "get_current_status env s =
     (let status_msg = [];
          status_msg = (if installed s then ''SW installed.'' else status_msg);
          status_msg =
            (if started s \<and> service_active env SRS_ENB_SERVICE
             then (let status_msg = ''srsenb started. '';
                       status_msg =
                         (if truthy (mme_addr s)
                          then status_msg @ ''mme: '' @ fmt (mme_addr s) @ ''. ''
                          else status_msg);
                       status_msg =
                         (if ue_attached s \<and> service_active env SRS_UE_SERVICE
                          then status_msg @ ''ue attached. ''
                          else status_msg)
                   in status_msg)
             else status_msg)
      in ActiveStatus status_msg)"

text \<open>\<^verbatim>\<open>_reset_environment\<close>: \<^verbatim>\<open>rmtree\<close> ignores errors, \<^verbatim>\<open>mkdir\<close> does not.\<close>

definition reset_environment :: "env \<Rightarrow> charm \<Rightarrow> result" where
  "reset_environment env w =
     (let w = record_call (Rmtree SRC_PATH) w;
          w = record_call (Rmtree BUILD_PATH) w;
          w = record_call (Rmtree CONFIG_PATH) w;
          w = record_call (Rmtree SERVICE_PATH) w
      in andthen (ext env (Mkdir SRC_PATH) w) (\<lambda>w.
         andthen (ext env (Mkdir BUILD_PATH) w) (\<lambda>w.
         andthen (ext env (Mkdir CONFIG_PATH) w) (\<lambda>w.
         ext env (Mkdir SERVICE_PATH) w))))"

text \<open>
  \<^verbatim>\<open>_configure_service\<close>: opening a template that is not there raises; otherwise the
  rendered text is written to the service path and the daemon is reloaded.
\<close>

definition configure_service :: "env \<Rightarrow> string \<Rightarrow> string \<Rightarrow> string \<Rightarrow> charm \<Rightarrow> result" where
  "configure_service env command service_template service_path w =
     (case template_files env service_template of
        None \<Rightarrow> Inl (FileNotFoundError service_template, w)
      | Some template \<Rightarrow>
          andthen (ext env (WriteFile service_path
                             (render (jinja_text env) template command)) w) (\<lambda>w.
          ext env SystemctlDaemonReload w))"

definition configure_srsenb_service :: "env \<Rightarrow> config \<Rightarrow> charm \<Rightarrow> result" where
  "configure_srsenb_service env cfg w =
     configure_service env (get_srsenb_command cfg (stored w))
       SRS_ENB_SERVICE_TEMPLATE SRS_ENB_SERVICE_PATH w"

definition configure_srsue_service :: "env \<Rightarrow> config \<Rightarrow> charm \<Rightarrow> result" where
  "configure_srsue_service env cfg w =
     configure_service env (get_srsue_command cfg (stored w))
       SRS_UE_SERVICE_TEMPLATE SRS_UE_SERVICE_PATH w"

text \<open>\<^verbatim>\<open>_get_bind_address\<close>\<close>

definition get_bind_address :: "env \<Rightarrow> config \<Rightarrow> string option" where
  "get_bind_address env cfg =
     (case cfg ''bind-address-subnet'' of
        None \<Rightarrow> ip_from_default_iface env
      | Some bind_address_subnet \<Rightarrow>
          if bind_address_subnet \<noteq> [] then ip_from_iface env bind_address_subnet
          else ip_from_default_iface env)"

text \<open>The loop of \<^verbatim>\<open>_on_install\<close> over the packages.\<close>

fun install_apt_packages :: "env \<Rightarrow> string list \<Rightarrow> charm \<Rightarrow> result" where
  "install_apt_packages env [] w = Inr w"
| "install_apt_packages env (package # packages) w =
     (case ext env (InstallAptPackage package) w of
        Inl e \<Rightarrow> Inl e
      | Inr w' \<Rightarrow> install_apt_packages env packages w')"

definition on_install :: "env \<Rightarrow> config \<Rightarrow> charm \<Rightarrow> result" where
  "on_install env cfg w =
     (let w = set_status (MaintenanceStatus ''Installing apt packages'') w
      in andthen (ext env UpdateAptCache w) (\<lambda>w.
         andthen (install_apt_packages env APT_REQUIREMENTS w) (\<lambda>w.
         andthen (reset_environment env
                    (set_status (MaintenanceStatus ''Preparing the environment'') w)) (\<lambda>w.
         andthen (ext env (GitClone GIT_REPO SRC_PATH GIT_REPO_TAG 1)
                    (set_status (MaintenanceStatus ''Downloading srsLTE from Github'') w)) (\<lambda>w.
         andthen (ext env (Shell SRS_ENB_UE_BUILD_COMMAND)
                    (set_status (MaintenanceStatus ''Building srsLTE'') w)) (\<lambda>w.
         andthen (ext env (CopyFiles CONFIG_ORIGIN_PATHS CONFIG_PATHS)
                    (set_status (MaintenanceStatus ''Generating configuration files'') w)) (\<lambda>w.
         andthen (configure_srsenb_service env cfg
                    (set_status (MaintenanceStatus ''Generating systemd files'') w)) (\<lambda>w.
         andthen (configure_srsue_service env cfg w) (\<lambda>w.
         (let w = record_call (ServiceEnable SRS_ENB_SERVICE
                                 (service_enable env SRS_ENB_SERVICE)) w
          in Inr (w\<lparr>stored := (stored w)\<lparr>installed := True\<rparr>\<rparr>)))))))))))"

definition on_start :: "env \<Rightarrow> charm \<Rightarrow> result" where
  "on_start env w =
     (let w = set_status (MaintenanceStatus ''Starting srsenb'') w;
          w = record_call (ServiceStart SRS_ENB_SERVICE (service_start env SRS_ENB_SERVICE)) w;
          w = w\<lparr>stored := (stored w)\<lparr>started := True\<rparr>\<rparr>
      in Inr (set_status (get_current_status env (stored w)) w))"

definition on_stop :: "env \<Rightarrow> charm \<Rightarrow> result" where
  "on_stop env w =
     andthen (reset_environment env w) (\<lambda>w.
       (let w = record_call (ServiceStop SRS_ENB_SERVICE (service_stop env SRS_ENB_SERVICE)) w;
            w = w\<lparr>stored := (stored w)\<lparr>started := False\<rparr>\<rparr>
        in Inr (set_status (get_current_status env (stored w)) w)))"

definition on_config_changed :: "env \<Rightarrow> config \<Rightarrow> charm \<Rightarrow> result" where
  "on_config_changed env cfg w =
     (let w = w\<lparr>stored := (stored w)\<lparr>bind_addr := get_bind_address env cfg\<rparr>\<rparr>
      in andthen (configure_srsenb_service env cfg w) (\<lambda>w.
         (let w = (if started (stored w)
                   then record_call (ServiceRestart SRS_ENB_SERVICE
                                       (service_restart env SRS_ENB_SERVICE))
                          (set_status (MaintenanceStatus ''Reloading srsenb'') w)
                   else w)
          in Inr (set_status (get_current_status env (stored w)) w))))"

definition on_update_status :: "env \<Rightarrow> charm \<Rightarrow> result" where
  "on_update_status env w = Inr (set_status (get_current_status env (stored w)) w)"

text \<open>
  \<^verbatim>\<open>_on_attach_ue_action\<close>: \<^verbatim>\<open>event.params\<close> is a dictionary, and reading a key it
  does not have raises after the assignments made so far.
\<close>

definition on_attach_ue_action :: "env \<Rightarrow> config \<Rightarrow> (string \<rightharpoonup> string) \<Rightarrow> charm \<Rightarrow> result" where
  "on_attach_ue_action env cfg params w =
     (case params ''usim-imsi'' of
        None \<Rightarrow> Inl (KeyError ''usim-imsi'', w)
      | Some imsi \<Rightarrow>
     (let w = w\<lparr>stored := (stored w)\<lparr>ue_usim_imsi := Some imsi\<rparr>\<rparr> in
      case params ''usim-k'' of
        None \<Rightarrow> Inl (KeyError ''usim-k'', w)
      | Some k \<Rightarrow>
     (let w = w\<lparr>stored := (stored w)\<lparr>ue_usim_k := Some k\<rparr>\<rparr> in
      case params ''usim-opc'' of
        None \<Rightarrow> Inl (KeyError ''usim-opc'', w)
      | Some opc \<Rightarrow>
     (let w = w\<lparr>stored := (stored w)\<lparr>ue_usim_opc := Some opc\<rparr>\<rparr> in
      andthen (configure_srsue_service env cfg w) (\<lambda>w.
        (let w = record_call (ServiceRestart SRS_UE_SERVICE
                                (service_restart env SRS_UE_SERVICE)) w;
             w = w\<lparr>stored := (stored w)\<lparr>ue_attached := True\<rparr>\<rparr>;
             w = set_status (get_current_status env (stored w)) w
         in Inr (record_call (SetResults ''ok'' ''Attached successfully'') w)))))))"

definition on_detach_ue_action :: "env \<Rightarrow> config \<Rightarrow> charm \<Rightarrow> result" where
  "on_detach_ue_action env cfg w =
     (let w = w\<lparr>stored := (stored w)\<lparr>ue_usim_imsi := None\<rparr>\<rparr>;
          w = w\<lparr>stored := (stored w)\<lparr>ue_usim_k := None\<rparr>\<rparr>;
          w = w\<lparr>stored := (stored w)\<lparr>ue_usim_opc := None\<rparr>\<rparr>;
          w = record_call (ServiceStop SRS_UE_SERVICE (service_stop env SRS_UE_SERVICE)) w
      in andthen (configure_srsue_service env cfg w) (\<lambda>w.
         (let w = w\<lparr>stored := (stored w)\<lparr>ue_attached := False\<rparr>\<rparr>;
              w = set_status (get_current_status env (stored w)) w
          in Inr (record_call (SetResults ''ok'' ''Detached successfully'') w))))"

definition on_remove_default_gw_action :: "env \<Rightarrow> charm \<Rightarrow> result" where
  "on_remove_default_gw_action env w =
     andthen (ext env (Shell ''route del default'') w) (\<lambda>w.
       Inr (record_call (SetResults ''ok'' ''Default route removed!'') w))"

text \<open>
  \<^verbatim>\<open>_mme_relation_changed\<close>: \<open>unit\<close> is \<^verbatim>\<open>event.unit\<close> (which may be \<^verbatim>\<open>None\<close>),
  \<open>data\<close> is \<^verbatim>\<open>event.relation.data\<close>, from units to their dictionaries. The
  \<^verbatim>\<open>return\<close> on an address that is not IPv4 leaves the handler before the status
  is set.
\<close>

definition mme_relation_changed ::
  "env \<Rightarrow> config \<Rightarrow> string option \<Rightarrow> (string \<rightharpoonup> (string \<rightharpoonup> string)) \<Rightarrow> charm \<Rightarrow> result" where
  "mme_relation_changed env cfg unit data w =
     (case (case unit of None \<Rightarrow> None | Some u \<Rightarrow> data u) of
        None \<Rightarrow> Inr (set_status (get_current_status env (stored w)) w)
      | Some unit_data \<Rightarrow>
          (let mme = unit_data ''mme-addr'' in
           if \<not> is_ipv4 env mme then Inr w
           else
             (let w = w\<lparr>stored := (stored w)\<lparr>mme_addr := mme\<rparr>\<rparr>
              in andthen (configure_srsenb_service env cfg w) (\<lambda>w.
                 (let w = (if started (stored w)
                           then record_call (ServiceRestart SRS_ENB_SERVICE
                                               (service_restart env SRS_ENB_SERVICE))
                                  (set_status (MaintenanceStatus ''Reloading srsenb'') w)
                           else w)
                  in Inr (set_status (get_current_status env (stored w)) w))))))"

subsection \<open>Events\<close>

datatype event =
    Install
  | Start
  | Stop
  | ConfigChanged
  | UpdateStatus
  | AttachUe "string \<rightharpoonup> string"
  | DetachUe
  | RemoveDefaultGw
  | MmeRelationChanged "string option" "string \<rightharpoonup> (string \<rightharpoonup> string)"

text \<open>The observers registered in \<^verbatim>\<open>__init__\<close>.\<close>

fun handle :: "env \<Rightarrow> config \<Rightarrow> event \<Rightarrow> charm \<Rightarrow> result" where
  "handle env cfg Install w = on_install env cfg w"
| "handle env cfg Start w = on_start env w"
| "handle env cfg Stop w = on_stop env w"
| "handle env cfg ConfigChanged w = on_config_changed env cfg w"
| "handle env cfg UpdateStatus w = on_update_status env w"
| "handle env cfg (AttachUe params) w = on_attach_ue_action env cfg params w"
| "handle env cfg DetachUe w = on_detach_ue_action env cfg w"
| "handle env cfg RemoveDefaultGw w = on_remove_default_gw_action env w"
| "handle env cfg (MmeRelationChanged unit data) w = mme_relation_changed env cfg unit data w"

text \<open>
  The stored states the charm can be in between events: the defaults of \<^verbatim>\<open>__init__\<close>,
  and the state a handler leaves when it returns. (A handler that raises fails the
  hook, and the framework writes the stored state back only after the handler has
  returned.) The environment and the configuration may differ from event to event.
\<close>

inductive reachable :: "stored_state \<Rightarrow> bool" where
  initial: "reachable stored_default"
| event: "reachable (stored w) \<Longrightarrow> handle env cfg ev w = Inr w' \<Longrightarrow> reachable (stored w')"

text \<open>
  The same, for the sequences of events that keep to the order the lifecycle gives:
  Start is delivered only when \<open>installed\<close> holds.
\<close>

inductive reachable_in_order :: "stored_state \<Rightarrow> bool" where
  initial_in_order: "reachable_in_order stored_default"
| event_in_order:
    "reachable_in_order (stored w) \<Longrightarrow> (ev = Start \<Longrightarrow> installed (stored w)) \<Longrightarrow>
     handle env cfg ev w = Inr w' \<Longrightarrow> reachable_in_order (stored w')"


subsection \<open>Reading the trace\<close>

fun is_service_restart :: "call \<Rightarrow> bool" where
  "is_service_restart (ServiceRestart name ok) = True"
| "is_service_restart c = False"

text \<open>The restarts a charm has asked for so far, and the unit files it has written.\<close>

definition restarts :: "charm \<Rightarrow> call list" where
  "restarts w = filter is_service_restart (calls w)"

fun is_write_file :: "call \<Rightarrow> bool" where
  "is_write_file (WriteFile path content) = True"
| "is_write_file c = False"

definition writes :: "charm \<Rightarrow> call list" where
  "writes w = filter is_write_file (calls w)"

text \<open>How many of the three subscriber fields hold a value.\<close>

definition subscriber_fields_set :: "stored_state \<Rightarrow> nat" where
  "subscriber_fields_set s =
     length (filter (\<lambda>field. field \<noteq> None) [ue_usim_imsi s, ue_usim_k s, ue_usim_opc s])"

subsection \<open>A test bed\<close>

text \<open>
  The configuration and the two unit templates of the repository's unit test
  (\<^verbatim>\<open>tests/unit/test_charm.py\<close>), read off the unit texts it expects, and an
  environment in which every call succeeds and every service is live. Its address
  check accepts the dotted quads: four decimal numbers up to 255.
\<close>

definition test_config :: config where
  "test_config =
     [''enb-name'' \<mapsto> ''dummyENB01'', ''enb-mcc'' \<mapsto> ''901'', ''enb-mnc'' \<mapsto> ''70'',
      ''enb-rf-device-name'' \<mapsto> ''zmq'',
      ''enb-rf-device-args'' \<mapsto>
        ''fail_on_disconnect=true,tx_port=tcp://*:2000,rx_port=tcp://localhost:2001,id=enb,base_srate=23.04e6'',
      ''ue-usim-algo'' \<mapsto> ''milenage'', ''ue-nas-apn'' \<mapsto> ''oai.ipv4'',
      ''ue-device-name'' \<mapsto> ''zmq'',
      ''ue-device-args'' \<mapsto>
        ''tx_port=tcp://*:2001,rx_port=tcp://localhost:2000,id=ue,base_srate=23.04e6'']"

definition srsenb_service_template :: template where
  "srsenb_service_template =
     [Text (''[Unit]\<newline>Description=Srs EnodeB Service\<newline>After=network.target\<newline>''
            @ ''StartLimitIntervalSec=0\<newline>[Service]\<newline>Type=simple\<newline>Restart=always\<newline>''
            @ ''RestartSec=1\<newline>User=root\<newline>ExecStart=''),
      Var ''command'',
      Text ''\<newline>\<newline>[Install]\<newline>WantedBy=multi-user.target'']"

definition srsue_service_template :: template where
  "srsue_service_template =
     [Text (''[Unit]\<newline>Description=Srs User Emulator Service\<newline>After=network.target\<newline>''
            @ ''StartLimitIntervalSec=0\<newline>[Service]\<newline>Type=simple\<newline>Restart=always\<newline>''
            @ ''RestartSec=1\<newline>ExecStart=''),
      Var ''command'',
      Text (''\<newline>User=root\<newline>KillSignal=SIGINT\<newline>TimeoutStopSec=10\<newline>''
            @ ''ExecStopPost=service srsenb restart\<newline>\<newline>[Install]\<newline>''
            @ ''WantedBy=multi-user.target'')]"

fun split_on :: "char \<Rightarrow> string \<Rightarrow> string list" where
  "split_on c [] = [[]]"
| "split_on c (x # xs) =
     (if x = c then [] # split_on c xs
      else (case split_on c xs of [] \<Rightarrow> [[x]] | p # ps \<Rightarrow> (x # p) # ps))"

definition digit_value :: "char \<Rightarrow> nat" where
  "digit_value c = length (takeWhile (\<lambda>d. d \<noteq> c) ''0123456789'')"

definition is_octet :: "string \<Rightarrow> bool" where
  "is_octet p =
     (p \<noteq> [] \<and> length p \<le> 3 \<and> list_all (\<lambda>c. digit_value c < 10) p \<and>
      foldl (\<lambda>n c. 10 * n + digit_value c) 0 p \<le> 255)"

fun dotted_quad :: "string option \<Rightarrow> bool" where
  "dotted_quad None = False"
| "dotted_quad (Some a) =
     (length (split_on CHR ''.'' a) = 4 \<and> list_all is_octet (split_on CHR ''.'' a))"

text \<open>
  What the library prints for its own names; the text for \<^verbatim>\<open>lipsum\<close> ends in the
  address of a function, which is that of one run.
\<close>

definition class_text :: "string \<Rightarrow> string" where
  "class_text name = ''<class '' @ [CHR 0x27] @ name @ [CHR 0x27] @ ''>''"

definition jinja_default_text :: "string \<Rightarrow> string" where
  "jinja_default_text n =
     (if n = ''range'' then class_text ''range''
      else if n = ''dict'' then class_text ''dict''
      else if n = ''cycler'' then class_text ''jinja2.utils.Cycler''
      else if n = ''joiner'' then class_text ''jinja2.utils.Joiner''
      else if n = ''namespace'' then class_text ''jinja2.utils.Namespace''
      else if n = ''lipsum'' then ''<function generate_lorem_ipsum at 0x7f2b8c1d5e50>''
      else if n = ''self'' then ''<TemplateReference None>''
      else [])"

definition test_env :: env where
  "test_env =
     \<lparr>is_ipv4 = dotted_quad,
      service_active = (\<lambda>name. True),
      service_start = (\<lambda>name. True),
      service_stop = (\<lambda>name. True),
      service_restart = (\<lambda>name. True),
      service_enable = (\<lambda>name. True),
      ip_from_iface = (\<lambda>subnet. Some ''192.168.1.5''),
      ip_from_default_iface = Some ''192.168.1.5'',
      raises = (\<lambda>c. False),
      template_files = [SRS_ENB_SERVICE_TEMPLATE \<mapsto> srsenb_service_template,
                        SRS_UE_SERVICE_TEMPLATE \<mapsto> srsue_service_template],
      jinja_text = jinja_default_text\<rparr>"

text \<open>The charm as the test harness starts it.\<close>

definition fresh_charm :: charm where
  "fresh_charm = \<lparr>stored = stored_default, unit_status = MaintenanceStatus [], calls = []\<rparr>"

definition test_params :: "string \<rightharpoonup> string" where
  "test_params =
     [''usim-imsi'' \<mapsto> ''001010000000001'',
      ''usim-k'' \<mapsto> ''00112233445566778899aabbccddeeff'',
      ''usim-opc'' \<mapsto> ''63bfa50ee6523365ff14c1f45f88737d'']"

section \<open>Properties\<close>

subsection \<open>Steps and their frames\<close>

lemma andthen_Inr: "andthen r f = Inr w' \<longleftrightarrow> (\<exists>w1. r = Inr w1 \<and> f w1 = Inr w')"
  by (cases r) (simp_all add: andthen_def)

lemma andthen_Inl: "andthen r f = Inl e \<longleftrightarrow> r = Inl e \<or> (\<exists>w1. r = Inr w1 \<and> f w1 = Inl e)"
  by (cases r) (auto simp: andthen_def)

lemma ext_Inr: "ext env c w = Inr w' \<longleftrightarrow> \<not> raises env c \<and> w' = record_call c w"
  by (auto simp: ext_def)

lemma ext_Inl: "ext env c w = Inl ew \<longleftrightarrow> raises env c \<and> ew = (CallError c, record_call c w)"
  by (auto simp: ext_def)

lemma stored_record_call [simp]: "stored (record_call c w) = stored w"
  by (simp add: record_call_def)

lemma stored_set_status [simp]: "stored (set_status st w) = stored w"
  by (simp add: set_status_def)

lemma calls_set_status [simp]: "calls (set_status st w) = calls w"
  by (simp add: set_status_def)

lemma calls_record_call [simp]: "calls (record_call c w) = calls w @ [c]"
  by (simp add: record_call_def)

lemma stored_reset_environment: "reset_environment env w = Inr w' \<Longrightarrow> stored w' = stored w"
  by (auto simp: reset_environment_def andthen_Inr ext_Inr)

lemma stored_configure_service:
  "configure_service env command tp sp w = Inr w' \<Longrightarrow> stored w' = stored w"
  by (auto simp: configure_service_def andthen_Inr ext_Inr split: option.splits)

lemma stored_install_apt_packages:
  "install_apt_packages env ps w = Inr w' \<Longrightarrow> stored w' = stored w"
  by (induction ps arbitrary: w) (auto simp: ext_Inr split: sum.splits)

lemma stored_on_install:
  "on_install env cfg w = Inr w' \<Longrightarrow> stored w' = (stored w)\<lparr>installed := True\<rparr>"
  by (auto simp: on_install_def andthen_Inr ext_Inr Let_def
        configure_srsenb_service_def configure_srsue_service_def
      dest!: stored_reset_environment stored_configure_service stored_install_apt_packages)

lemma stored_on_start: "on_start env w = Inr w' \<Longrightarrow> stored w' = (stored w)\<lparr>started := True\<rparr>"
  by (auto simp: on_start_def Let_def)

lemma stored_on_stop: "on_stop env w = Inr w' \<Longrightarrow> stored w' = (stored w)\<lparr>started := False\<rparr>"
  by (auto simp: on_stop_def Let_def andthen_Inr dest!: stored_reset_environment)

lemma stored_on_config_changed:
  "on_config_changed env cfg w = Inr w' \<Longrightarrow>
   stored w' = (stored w)\<lparr>bind_addr := get_bind_address env cfg\<rparr>"
  by (auto simp: on_config_changed_def Let_def andthen_Inr configure_srsenb_service_def
      dest!: stored_configure_service split: if_splits)

lemma stored_on_update_status: "on_update_status env w = Inr w' \<Longrightarrow> stored w' = stored w"
  by (auto simp: on_update_status_def)

lemma stored_on_attach_ue_action:
  "on_attach_ue_action env cfg params w = Inr w' \<Longrightarrow>
   (\<exists>imsi k opc. params ''usim-imsi'' = Some imsi \<and> params ''usim-k'' = Some k \<and>
      params ''usim-opc'' = Some opc \<and>
      stored w' = (stored w)\<lparr>ue_usim_imsi := Some imsi, ue_usim_k := Some k,
                    ue_usim_opc := Some opc, ue_attached := True\<rparr>)"
  by (auto simp: on_attach_ue_action_def Let_def andthen_Inr configure_srsue_service_def
      dest!: stored_configure_service split: option.splits)

lemma stored_on_detach_ue_action:
  "on_detach_ue_action env cfg w = Inr w' \<Longrightarrow>
   stored w' = (stored w)\<lparr>ue_usim_imsi := None, ue_usim_k := None,
                    ue_usim_opc := None, ue_attached := False\<rparr>"
  by (auto simp: on_detach_ue_action_def Let_def andthen_Inr configure_srsue_service_def
      dest!: stored_configure_service)

lemma stored_on_remove_default_gw_action:
  "on_remove_default_gw_action env w = Inr w' \<Longrightarrow> stored w' = stored w"
  by (auto simp: on_remove_default_gw_action_def andthen_Inr ext_Inr)

lemma stored_mme_relation_changed:
  "mme_relation_changed env cfg unit data w = Inr w' \<Longrightarrow>
   stored w' = stored w \<or> (\<exists>m. stored w' = (stored w)\<lparr>mme_addr := m\<rparr>)"
  by (auto simp: mme_relation_changed_def Let_def andthen_Inr configure_srsenb_service_def
      dest!: stored_configure_service split: option.splits if_splits)


subsection \<open>What each event does to the stored state\<close>

lemma stored_handle:
  assumes h: "handle env cfg ev w = Inr w'"
  shows "(case ev of
      Install \<Rightarrow> stored w' = (stored w)\<lparr>installed := True\<rparr>
    | Start \<Rightarrow> stored w' = (stored w)\<lparr>started := True\<rparr>
    | Stop \<Rightarrow> stored w' = (stored w)\<lparr>started := False\<rparr>
    | ConfigChanged \<Rightarrow> stored w' = (stored w)\<lparr>bind_addr := get_bind_address env cfg\<rparr>
    | UpdateStatus \<Rightarrow> stored w' = stored w
    | AttachUe params \<Rightarrow>
        (\<exists>imsi k opc. stored w' = (stored w)\<lparr>ue_usim_imsi := Some imsi, ue_usim_k := Some k,
                    ue_usim_opc := Some opc, ue_attached := True\<rparr>)
    | DetachUe \<Rightarrow> stored w' = (stored w)\<lparr>ue_usim_imsi := None, ue_usim_k := None,
                    ue_usim_opc := None, ue_attached := False\<rparr>
    | RemoveDefaultGw \<Rightarrow> stored w' = stored w
    | MmeRelationChanged unit data \<Rightarrow>
        stored w' = stored w \<or> (\<exists>m. stored w' = (stored w)\<lparr>mme_addr := m\<rparr>))"
proof (cases ev)
  case Install
  with h show ?thesis using stored_on_install[of env cfg w w'] by simp
next
  case Start
  with h show ?thesis using stored_on_start[of env w w'] by simp
next
  case Stop
  with h show ?thesis using stored_on_stop[of env w w'] by simp
next
  case ConfigChanged
  with h show ?thesis using stored_on_config_changed[of env cfg w w'] by simp
next
  case UpdateStatus
  with h show ?thesis using stored_on_update_status[of env w w'] by simp
next
  case (AttachUe params)
  with h show ?thesis using stored_on_attach_ue_action[of env cfg params w w'] by auto
next
  case DetachUe
  with h show ?thesis using stored_on_detach_ue_action[of env cfg w w'] by simp
next
  case RemoveDefaultGw
  with h show ?thesis using stored_on_remove_default_gw_action[of env w w'] by simp
next
  case (MmeRelationChanged unit data)
  with h show ?thesis using stored_mme_relation_changed[of env cfg unit data w w'] by simp
qed

lemma fields_set_frame [simp]:
  "subscriber_fields_set (s\<lparr>installed := b\<rparr>) = subscriber_fields_set s"
  "subscriber_fields_set (s\<lparr>started := b\<rparr>) = subscriber_fields_set s"
  "subscriber_fields_set (s\<lparr>ue_attached := b\<rparr>) = subscriber_fields_set s"
  "subscriber_fields_set (s\<lparr>bind_addr := a\<rparr>) = subscriber_fields_set s"
  "subscriber_fields_set (s\<lparr>mme_addr := a\<rparr>) = subscriber_fields_set s"
  by (simp_all add: subscriber_fields_set_def)

lemma fields_set_attach [simp]:
  "subscriber_fields_set (s\<lparr>ue_usim_imsi := Some imsi, ue_usim_k := Some k,
      ue_usim_opc := Some opc\<rparr>) = 3"
  by (simp add: subscriber_fields_set_def)

lemma fields_set_detach [simp]:
  "subscriber_fields_set (s\<lparr>ue_usim_imsi := None, ue_usim_k := None,
      ue_usim_opc := None\<rparr>) = 0"
  by (simp add: subscriber_fields_set_def)

lemma triple_reachable:
  "reachable s \<Longrightarrow> subscriber_fields_set s = 0 \<or> subscriber_fields_set s = 3"
proof (induction rule: reachable.induct)
  case initial
  show ?case by (simp add: subscriber_fields_set_def stored_default_def)
next
  case (event w env cfg ev w')
  from stored_handle[OF event.hyps(2)] event.IH show ?case
    by (cases ev) auto
qed

lemma installed_kept:
  "handle env cfg ev w = Inr w' \<Longrightarrow> installed (stored w) \<Longrightarrow> installed (stored w')"
  by (drule stored_handle) (cases ev; auto)

lemma started_by_start_only:
  "handle env cfg ev w = Inr w' \<Longrightarrow> ev \<noteq> Start \<Longrightarrow> started (stored w') \<Longrightarrow> started (stored w)"
  by (drule stored_handle) (cases ev; auto)

lemma in_order_invariant: "reachable_in_order s \<Longrightarrow> started s \<longrightarrow> installed s"
proof (induction rule: reachable_in_order.induct)
  case initial_in_order
  show ?case by (simp add: stored_default_def)
next
  case (event_in_order w ev env cfg w')
  show ?case
  proof (cases "ev = Start")
    case True
    with event_in_order.hyps(2) have "installed (stored w)" by simp
    with event_in_order.hyps(3) show ?thesis by (simp add: installed_kept)
  next
    case False
    show ?thesis
    proof
      assume "started (stored w')"
      with event_in_order.hyps(3) False have "started (stored w)"
        by (rule started_by_start_only)
      with event_in_order.IH have "installed (stored w)" by simp
      with event_in_order.hyps(3) show "installed (stored w')" by (simp add: installed_kept)
    qed
  qed
qed

lemmas path_defs =
  SRS_ENB_BINARY_def SRS_UE_BINARY_def BUILD_PATH_def config_path_def CONFIG_PATHS_def
  CONFIG_PATH_def

lemma completed_outcome: "completed r \<Longrightarrow> r = Inr (outcome r)"
  by (cases r) (simp_all add: completed_def outcome_def)

subsection \<open>Outcomes and the restarts in the trace\<close>

lemmas step_defs =
  andthen_def ext_def record_call_def set_status_def completed_def outcome_def Let_def
  reset_environment_def configure_service_def configure_srsenb_service_def
  configure_srsue_service_def

lemma outcome_andthen:
  "outcome (andthen r f) = (if completed r then outcome (f (outcome r)) else outcome r)"
  by (cases r) (simp_all add: andthen_def completed_def outcome_def)

lemma completed_andthen:
  "completed (andthen r f) \<longleftrightarrow> completed r \<and> completed (f (outcome r))"
  by (cases r) (simp_all add: andthen_def completed_def outcome_def)

lemma outcome_Inr [simp]: "outcome (Inr w) = w"
  by (simp add: outcome_def)

lemma completed_Inr [simp]: "completed (Inr w)"
  by (simp add: completed_def)

lemma outcome_Inl [simp]: "outcome (Inl (e, w)) = w"
  by (simp add: outcome_def)

lemma completed_Inl [simp]: "\<not> completed (Inl ew)"
  by (simp add: completed_def)

lemma restarts_set_status [simp]: "restarts (set_status st w) = restarts w"
  by (simp add: restarts_def)

lemma restarts_stored_update [simp]: "restarts (w\<lparr>stored := s\<rparr>) = restarts w"
  by (simp add: restarts_def)

lemma restarts_record_call [simp]:
  "restarts (record_call c w) = restarts w @ (if is_service_restart c then [c] else [])"
  by (simp add: restarts_def)

lemma restarts_ext [simp]:
  "restarts (outcome (ext env c w)) = restarts w @ (if is_service_restart c then [c] else [])"
  by (simp add: ext_def outcome_def)

lemma restarts_reset_environment [simp]:
  "restarts (outcome (reset_environment env w)) = restarts w"
  by (simp add: reset_environment_def outcome_andthen Let_def)

lemma restarts_configure_service [simp]:
  "restarts (outcome (configure_service env command tp sp w)) = restarts w"
  by (cases "template_files env tp") (simp_all add: configure_service_def outcome_andthen)

lemma restarts_install_apt_packages [simp]:
  "restarts (outcome (install_apt_packages env ps w)) = restarts w"
proof (induction ps arbitrary: w)
  case Nil
  show ?case by simp
next
  case (Cons p ps)
  have "restarts (record_call (InstallAptPackage p) w) = restarts w" by simp
  with Cons show ?case by (simp add: ext_def outcome_def)
qed

lemma restarts_on_install: "restarts (outcome (on_install env cfg w)) = restarts w"
  by (simp add: on_install_def outcome_andthen Let_def
      configure_srsenb_service_def configure_srsue_service_def)

lemma restarts_on_stop: "restarts (outcome (on_stop env w)) = restarts w"
  by (simp add: on_stop_def outcome_andthen Let_def)

lemma restarts_on_remove_default_gw_action:
  "restarts (outcome (on_remove_default_gw_action env w)) = restarts w"
  by (simp add: on_remove_default_gw_action_def outcome_andthen)

lemma restarts_on_config_changed_raised:
  "\<not> completed (on_config_changed env cfg w) \<Longrightarrow>
   restarts (outcome (on_config_changed env cfg w)) = restarts w"
  by (simp add: on_config_changed_def outcome_andthen completed_andthen Let_def
      configure_srsenb_service_def)

lemma restarts_mme_relation_changed_raised:
  assumes "\<not> completed (mme_relation_changed env cfg unit data w)"
  shows "restarts (outcome (mme_relation_changed env cfg unit data w)) = restarts w"
proof (cases "case unit of None \<Rightarrow> None | Some u \<Rightarrow> data u")
  case None
  then show ?thesis by (simp add: mme_relation_changed_def)
next
  case (Some unit_data)
  show ?thesis
  proof (cases "is_ipv4 env (unit_data ''mme-addr'')")
    case False
    with Some show ?thesis by (simp add: mme_relation_changed_def)
  next
    case True
    with Some assms show ?thesis
      by (simp add: mme_relation_changed_def outcome_andthen completed_andthen Let_def
          configure_srsenb_service_def)
  qed
qed

lemma restarts_on_attach_ue_action_raised:
  assumes "\<not> completed (on_attach_ue_action env cfg params w)"
  shows "restarts (outcome (on_attach_ue_action env cfg params w)) = restarts w"
proof (cases "params ''usim-imsi''")
  case None
  then show ?thesis by (simp add: on_attach_ue_action_def)
next
  case imsi: (Some imsi)
  show ?thesis
  proof (cases "params ''usim-k''")
    case None
    with imsi show ?thesis by (simp add: on_attach_ue_action_def)
  next
    case k: (Some k)
    show ?thesis
    proof (cases "params ''usim-opc''")
      case None
      with imsi k show ?thesis by (simp add: on_attach_ue_action_def)
    next
      case (Some opc)
      with imsi k assms show ?thesis
        by (simp add: on_attach_ue_action_def outcome_andthen completed_andthen Let_def
            configure_srsue_service_def)
    qed
  qed
qed

lemma restarts_on_detach_ue_action:
  "restarts (outcome (on_detach_ue_action env cfg w)) = restarts w"
  by (simp add: on_detach_ue_action_def outcome_andthen Let_def configure_srsue_service_def)

lemma restarts_handle_raised:
  assumes "\<not> completed (handle env cfg ev w)"
  shows "restarts (outcome (handle env cfg ev w)) = restarts w"
proof (cases ev)
  case Install
  then show ?thesis by (simp add: restarts_on_install)
next
  case Start
  with assms show ?thesis by (simp add: on_start_def Let_def)
next
  case Stop
  then show ?thesis by (simp add: restarts_on_stop)
next
  case ConfigChanged
  with assms show ?thesis by (simp add: restarts_on_config_changed_raised)
next
  case UpdateStatus
  with assms show ?thesis by (simp add: on_update_status_def)
next
  case (AttachUe params)
  with assms show ?thesis by (simp add: restarts_on_attach_ue_action_raised)
next
  case DetachUe
  then show ?thesis by (simp add: restarts_on_detach_ue_action)
next
  case RemoveDefaultGw
  then show ?thesis by (simp add: restarts_on_remove_default_gw_action)
next
  case (MmeRelationChanged unit data)
  with assms show ?thesis by (simp add: restarts_mme_relation_changed_raised)
qed

subsection \<open>The test bed completes\<close>

lemma install_completes_in_test_env: "completed (on_install test_env cfg w)"
  by (simp add: on_install_def step_defs test_env_def APT_REQUIREMENTS_def
      SRS_ENB_SERVICE_TEMPLATE_def SRS_UE_SERVICE_TEMPLATE_def)

lemma attach_completes_in_test_env:
  "completed (on_attach_ue_action test_env cfg test_params w)"
  by (simp add: on_attach_ue_action_def step_defs test_env_def test_params_def
      SRS_ENB_SERVICE_TEMPLATE_def SRS_UE_SERVICE_TEMPLATE_def)

lemma detach_completes_in_test_env: "completed (on_detach_ue_action test_env cfg w)"
  by (simp add: on_detach_ue_action_def step_defs test_env_def
      SRS_ENB_SERVICE_TEMPLATE_def SRS_UE_SERVICE_TEMPLATE_def)

lemma start_completes: "completed (on_start env w)"
  by (simp add: on_start_def Let_def)

lemma stored_outcome_ext [simp]: "stored (outcome (ext env c w)) = stored w"
  by (simp add: ext_def outcome_def)

lemma stored_outcome_configure_service [simp]:
  "stored (outcome (configure_service env command tp sp w)) = stored w"
  by (cases "template_files env tp") (simp_all add: configure_service_def outcome_andthen)




lemma reachable_fresh: "reachable (stored fresh_charm)"
  by (simp add: fresh_charm_def reachable.initial)

lemma reachable_in_order_fresh: "reachable_in_order (stored fresh_charm)"
  by (simp add: fresh_charm_def reachable_in_order.initial_in_order)

text \<open>
  The repository's unit test of the rendered unit files
  (\<^verbatim>\<open>test_given_service_template_when_install_then_srsenb_service_file_is_rendered\<close>)
  on the embedding: Install on the fresh charm writes the two texts the test expects.
\<close>

lemma unit_test_rendered_service_files:
  "writes (outcome (on_install test_env test_config fresh_charm)) =
     [WriteFile ''/etc/systemd/system/srsenb.service''
        (''[Unit]\<newline>Description=Srs EnodeB Service\<newline>After=network.target\<newline>''
         @ ''StartLimitIntervalSec=0\<newline>[Service]\<newline>Type=simple\<newline>Restart=always\<newline>''
         @ ''RestartSec=1\<newline>User=root\<newline>''
         @ ''ExecStart=/build/srsenb/src/srsenb --enb.name=dummyENB01 --enb.mcc=901 --enb.mnc=70 ''
         @ ''--enb_files.rr_config=/config/rr.conf --enb_files.sib_config=/config/sib.conf ''
         @ ''--enb_files.drb_config=/config/drb.conf /config/enb.conf --rf.device_name=zmq ''
         @ ''--rf.device_args=fail_on_disconnect=true,tx_port=tcp://*:2000,''
         @ ''rx_port=tcp://localhost:2001,id=enb,base_srate=23.04e6\<newline>\<newline>''
         @ ''[Install]\<newline>WantedBy=multi-user.target''),
      WriteFile ''/etc/systemd/system/srsue.service''
        (''[Unit]\<newline>Description=Srs User Emulator Service\<newline>After=network.target\<newline>''
         @ ''StartLimitIntervalSec=0\<newline>[Service]\<newline>Type=simple\<newline>Restart=always\<newline>''
         @ ''RestartSec=1\<newline>''
         @ ''ExecStart=/build/srsue/src/srsue --usim.algo=milenage --nas.apn=oai.ipv4 ''
         @ ''--rf.device_name=zmq --rf.device_args=tx_port=tcp://*:2001,''
         @ ''rx_port=tcp://localhost:2000,id=ue,base_srate=23.04e6 /config/ue.conf\<newline>''
         @ ''User=root\<newline>KillSignal=SIGINT\<newline>TimeoutStopSec=10\<newline>''
         @ ''ExecStopPost=service srsenb restart\<newline>\<newline>[Install]\<newline>''
         @ ''WantedBy=multi-user.target'')]"
  by (simp add: on_install_def step_defs writes_def test_env_def test_config_def fresh_charm_def
      stored_default_def APT_REQUIREMENTS_def render_def jinja_own_names_def path_defs
      get_srsenb_command_def get_srsue_command_def srsenb_command_def srsue_command_def
      srsenb_service_template_def srsue_service_template_def
      SRS_ENB_SERVICE_TEMPLATE_def SRS_UE_SERVICE_TEMPLATE_def
      SRS_ENB_SERVICE_PATH_def SRS_UE_SERVICE_PATH_def)

subsection \<open>The peer relation\<close>

text \<open>
  C1. When the relation data of the triggering unit carries a peer address that the
  address check rejects (a string that is not an IPv4 literal, or no address at all),
  \<^verbatim>\<open>_mme_relation_changed\<close> returns the charm it was given: no field of the stored
  state changes, the trace of calls is the same (no unit file written, no restart), and
  the status is not even recomputed. This holds for whatever address check the
  environment has.
\<close>

theorem invalid_peer_address_is_dropped:
  assumes "unit = Some u" and "data u = Some unit_data"
    and "\<not> is_ipv4 env (unit_data ''mme-addr'')"
  shows "mme_relation_changed env cfg unit data w = Inr w"
  using assms by (simp add: mme_relation_changed_def)

text \<open>On a started charm, with the address \<^verbatim>\<open>not-an-address\<close>.\<close>

theorem invalid_peer_address_is_dropped_witness:
  "\<not> is_ipv4 test_env (Some ''not-an-address'') \<and>
   mme_relation_changed test_env test_config (Some ''mme/0'')
     [''mme/0'' \<mapsto> [''mme-addr'' \<mapsto> ''not-an-address'']]
     (fresh_charm\<lparr>stored := stored_default\<lparr>installed := True, started := True\<rparr>\<rparr>)
   = Inr (fresh_charm\<lparr>stored := stored_default\<lparr>installed := True, started := True\<rparr>\<rparr>)"
  using invalid_peer_address_is_dropped[of "Some ''mme/0''" "''mme/0''"
      "[''mme/0'' \<mapsto> [''mme-addr'' \<mapsto> ''not-an-address'']]"
      "[''mme-addr'' \<mapsto> ''not-an-address'']" test_env test_config
      "fresh_charm\<lparr>stored := stored_default\<lparr>installed := True, started := True\<rparr>\<rparr>"]
  by (simp add: test_env_def is_octet_def digit_value_def)

text \<open>
  C10. When the triggering unit has no entry in the relation data (or the event names
  no unit), \<^verbatim>\<open>_mme_relation_changed\<close> changes nothing but the status, which it
  recomputes: the stored state and the trace of calls are those it was given, so no
  unit file is written and no service restarted.
\<close>

theorem relation_changed_without_unit_entry:
  assumes "\<And>u. unit = Some u \<Longrightarrow> data u = None"
  shows "mme_relation_changed env cfg unit data w =
           Inr (w\<lparr>unit_status := get_current_status env (stored w)\<rparr>)"
  using assms by (cases unit) (simp_all add: mme_relation_changed_def set_status_def)

text \<open>On a started charm, with data for another unit only.\<close>

theorem relation_changed_without_unit_entry_witness:
  "mme_relation_changed test_env test_config (Some ''mme/0'')
     [''mme/1'' \<mapsto> [''mme-addr'' \<mapsto> ''10.0.0.1'']]
     (fresh_charm\<lparr>stored := stored_default\<lparr>installed := True, started := True\<rparr>\<rparr>)
   = Inr (fresh_charm\<lparr>stored := stored_default\<lparr>installed := True, started := True\<rparr>,
                      unit_status := ActiveStatus ''srsenb started. ''\<rparr>)"
  using relation_changed_without_unit_entry[of "Some ''mme/0''"
      "[''mme/1'' \<mapsto> [''mme-addr'' \<mapsto> ''10.0.0.1'']]" test_env test_config
      "fresh_charm\<lparr>stored := stored_default\<lparr>installed := True, started := True\<rparr>\<rparr>"]
  by (simp add: get_current_status_def Let_def test_env_def fresh_charm_def stored_default_def)

subsection \<open>The command builders\<close>








subsection \<open>The status\<close>

text \<open>
  C5, with the texts of the code. For a state with \<^verbatim>\<open>installed\<close> and \<^verbatim>\<open>started\<close>
  true, a live srsenb service, the peer address 10.0.0.1 and no attached subscriber,
  the status is the active status with exactly the text
  \<^verbatim>\<open>srsenb started. mme: 10.0.0.1. \<close>. In general the text of the started tier
  replaces that of the installed tier (\<^verbatim>\<open>SW installed.\<close>) and is not joined to it, the
  peer address is added when it is set and not empty, and \<^verbatim>\<open>ue attached. \<close> is added
  exactly when, in the started tier, \<^verbatim>\<open>ue_attached\<close> holds and the srsue service is
  live.
\<close>

theorem status_precedence:
  "(installed s \<and> started s \<and> service_active env SRS_ENB_SERVICE \<and>
    mme_addr s = Some ''10.0.0.1'' \<and> \<not> ue_attached s \<longrightarrow>
      get_current_status env s = ActiveStatus ''srsenb started. mme: 10.0.0.1. '') \<and>
   get_current_status env s =
     ActiveStatus
       (if started s \<and> service_active env SRS_ENB_SERVICE
        then ''srsenb started. ''
             @ (if truthy (mme_addr s) then ''mme: '' @ fmt (mme_addr s) @ ''. '' else [])
             @ (if ue_attached s \<and> service_active env SRS_UE_SERVICE
                then ''ue attached. '' else [])
        else if installed s then ''SW installed.'' else [])"
  by (simp add: get_current_status_def Let_def)

text \<open>The text the claim gives is not the text the code produces for that state.\<close>

theorem status_precedence_counterexample:
  "status_message (get_current_status test_env
      (stored_default\<lparr>mme_addr := Some ''10.0.0.1'', installed := True, started := True\<rparr>))
   \<noteq> ''base-station started. peer: 10.0.0.1. ''"
  by (simp add: get_current_status_def Let_def test_env_def stored_default_def)

theorem status_precedence_witness:
  "get_current_status test_env
      (stored_default\<lparr>mme_addr := Some ''10.0.0.1'', installed := True, started := True\<rparr>)
   = ActiveStatus ''srsenb started. mme: 10.0.0.1. ''"
  using status_precedence[of
      "stored_default\<lparr>mme_addr := Some ''10.0.0.1'', installed := True, started := True\<rparr>"
      test_env]
  by (simp add: test_env_def stored_default_def)

subsection \<open>The lifecycle\<close>

text \<open>
  C3, as the code has it. When \<^verbatim>\<open>_on_install\<close> returns, \<^verbatim>\<open>installed\<close> is true and
  every other field of the stored state is what it was before the event: the handler
  assigns \<^verbatim>\<open>installed\<close> and nothing else, and \<^verbatim>\<open>set_default\<close> gives a field its
  default only when the state is first created.
\<close>

theorem install_sets_installed_only:
  "on_install env cfg w = Inr w' \<Longrightarrow>
   installed (stored w') \<and> stored w' = (stored w)\<lparr>installed := True\<rparr>"
  by (simp add: stored_on_install)

text \<open>
  Install on a state with a peer address and \<^verbatim>\<open>started\<close> true: the handler returns,
  and both are still there, so the other fields are not reset.
\<close>

theorem install_resets_nothing_counterexample:
  "completed (on_install test_env test_config
      (fresh_charm\<lparr>stored := stored_default\<lparr>mme_addr := Some ''10.0.0.1'', started := True\<rparr>\<rparr>)) \<and>
   started (stored (outcome (on_install test_env test_config
      (fresh_charm\<lparr>stored := stored_default\<lparr>mme_addr := Some ''10.0.0.1'', started := True\<rparr>\<rparr>)))) \<and>
   mme_addr (stored (outcome (on_install test_env test_config
      (fresh_charm\<lparr>stored := stored_default\<lparr>mme_addr := Some ''10.0.0.1'', started := True\<rparr>\<rparr>))))
     = Some ''10.0.0.1''"
proof -
  let ?w = "fresh_charm\<lparr>stored := stored_default\<lparr>mme_addr := Some ''10.0.0.1'', started := True\<rparr>\<rparr>"
  have c: "completed (on_install test_env test_config ?w)"
    by (rule install_completes_in_test_env)
  then have "on_install test_env test_config ?w = Inr (outcome (on_install test_env test_config ?w))"
    by (rule completed_outcome)
  then have "stored (outcome (on_install test_env test_config ?w)) = (stored ?w)\<lparr>installed := True\<rparr>"
    by (rule stored_on_install)
  with c show ?thesis by simp
qed

theorem install_sets_installed_only_witness:
  "completed (on_install test_env test_config
      (fresh_charm\<lparr>stored := stored_default\<lparr>mme_addr := Some ''10.0.0.1'', started := True\<rparr>\<rparr>)) \<and>
   stored (outcome (on_install test_env test_config
      (fresh_charm\<lparr>stored := stored_default\<lparr>mme_addr := Some ''10.0.0.1'', started := True\<rparr>\<rparr>)))
     = stored_default\<lparr>mme_addr := Some ''10.0.0.1'', started := True, installed := True\<rparr>"
proof -
  let ?w = "fresh_charm\<lparr>stored := stored_default\<lparr>mme_addr := Some ''10.0.0.1'', started := True\<rparr>\<rparr>"
  have c: "completed (on_install test_env test_config ?w)"
    by (rule install_completes_in_test_env)
  then have "on_install test_env test_config ?w = Inr (outcome (on_install test_env test_config ?w))"
    by (rule completed_outcome)
  from install_sets_installed_only[OF this] c show ?thesis by (simp add: stored_default_def)
qed

text \<open>
  C6, as the code has it. \<^verbatim>\<open>started\<close> is true only if \<^verbatim>\<open>installed\<close> is, in every
  state reached from the initial state by a sequence of events in which Start is
  delivered only when \<^verbatim>\<open>installed\<close> holds: no handler clears \<^verbatim>\<open>installed\<close>, and
  only \<^verbatim>\<open>_on_start\<close> sets \<^verbatim>\<open>started\<close>, which it does without looking at
  \<^verbatim>\<open>installed\<close>.
\<close>

theorem started_only_if_installed_in_order:
  "reachable_in_order s \<Longrightarrow> started s \<Longrightarrow> installed s"
  using in_order_invariant by blast

text \<open>Start as the first event: the state it leaves is started and not installed.\<close>

theorem start_before_install_counterexample:
  "reachable (stored (outcome (on_start test_env fresh_charm))) \<and>
   started (stored (outcome (on_start test_env fresh_charm))) \<and>
   \<not> installed (stored (outcome (on_start test_env fresh_charm)))"
proof -
  have s: "on_start test_env fresh_charm = Inr (outcome (on_start test_env fresh_charm))"
    using start_completes by (rule completed_outcome)
  then have "handle test_env test_config Start fresh_charm
      = Inr (outcome (on_start test_env fresh_charm))" by simp
  with reachable_fresh have "reachable (stored (outcome (on_start test_env fresh_charm)))"
    by (rule reachable.event)
  moreover from s have "stored (outcome (on_start test_env fresh_charm))
      = (stored fresh_charm)\<lparr>started := True\<rparr>"
    by (rule stored_on_start)
  ultimately show ?thesis by (simp add: fresh_charm_def stored_default_def)
qed

text \<open>Install, then Start, in the test bed.\<close>

theorem started_only_if_installed_in_order_witness:
  "reachable_in_order (stored (outcome (on_start test_env
      (outcome (on_install test_env test_config fresh_charm))))) \<and>
   started (stored (outcome (on_start test_env
      (outcome (on_install test_env test_config fresh_charm))))) \<and>
   installed (stored (outcome (on_start test_env
      (outcome (on_install test_env test_config fresh_charm)))))"
proof -
  let ?i = "on_install test_env test_config fresh_charm"
  let ?s = "on_start test_env (outcome ?i)"
  have i: "?i = Inr (outcome ?i)"
    using install_completes_in_test_env by (rule completed_outcome)
  have s: "?s = Inr (outcome ?s)" using start_completes by (rule completed_outcome)
  have si: "stored (outcome ?i) = (stored fresh_charm)\<lparr>installed := True\<rparr>"
    using i by (rule stored_on_install)
  have ss: "stored (outcome ?s) = (stored (outcome ?i))\<lparr>started := True\<rparr>"
    using s by (rule stored_on_start)
  have hi: "handle test_env test_config Install fresh_charm = Inr (outcome ?i)"
    using i by simp
  have r1: "reachable_in_order (stored (outcome ?i))"
    by (rule reachable_in_order.event_in_order[OF reachable_in_order_fresh _ hi]) simp
  have hs: "handle test_env test_config Start (outcome ?i) = Inr (outcome ?s)"
    using s by simp
  have r2: "reachable_in_order (stored (outcome ?s))"
    by (rule reachable_in_order.event_in_order[OF r1 _ hs]) (simp add: si)
  have st: "started (stored (outcome ?s))" by (simp add: ss)
  from started_only_if_installed_in_order[OF r2 st] r2 st show ?thesis by simp
qed

subsection \<open>The subscriber\<close>

text \<open>
  C2. When \<^verbatim>\<open>_on_attach_ue_action\<close> returns, the three subscriber fields hold the
  three parameters of the action and \<^verbatim>\<open>ue_attached\<close> is true; when
  \<^verbatim>\<open>_on_detach_ue_action\<close> returns, the three are \<^verbatim>\<open>None\<close> and \<^verbatim>\<open>ue_attached\<close>
  is false; and in no reachable state do exactly one or two of the three hold a value.
  (A state is reachable when a sequence of events whose handlers returned leads to it:
  an attach whose parameters lack a key raises between the assignments and does not
  return.)
\<close>

theorem subscriber_triple_atomicity:
  "(on_attach_ue_action env cfg params w = Inr w' \<longrightarrow>
      ue_usim_imsi (stored w') = params ''usim-imsi'' \<and>
      ue_usim_k (stored w') = params ''usim-k'' \<and>
      ue_usim_opc (stored w') = params ''usim-opc'' \<and>
      subscriber_fields_set (stored w') = 3 \<and> ue_attached (stored w')) \<and>
   (on_detach_ue_action env cfg v = Inr v' \<longrightarrow>
      ue_usim_imsi (stored v') = None \<and> ue_usim_k (stored v') = None \<and>
      ue_usim_opc (stored v') = None \<and>
      subscriber_fields_set (stored v') = 0 \<and> \<not> ue_attached (stored v')) \<and>
   (reachable s \<longrightarrow> subscriber_fields_set s \<noteq> 1 \<and> subscriber_fields_set s \<noteq> 2)"
proof (intro conjI impI)
  assume "on_attach_ue_action env cfg params w = Inr w'"
  then obtain imsi k opc where
    p: "params ''usim-imsi'' = Some imsi" "params ''usim-k'' = Some k"
       "params ''usim-opc'' = Some opc" and
    s: "stored w' = (stored w)\<lparr>ue_usim_imsi := Some imsi, ue_usim_k := Some k,
                    ue_usim_opc := Some opc, ue_attached := True\<rparr>"
    by (blast dest: stored_on_attach_ue_action)
  from p s show "ue_usim_imsi (stored w') = params ''usim-imsi''"
    and "ue_usim_k (stored w') = params ''usim-k''"
    and "ue_usim_opc (stored w') = params ''usim-opc''"
    and "subscriber_fields_set (stored w') = 3"
    and "ue_attached (stored w')"
    by (simp_all add: subscriber_fields_set_def)
next
  assume "on_detach_ue_action env cfg v = Inr v'"
  then have s: "stored v' = (stored v)\<lparr>ue_usim_imsi := None, ue_usim_k := None,
                    ue_usim_opc := None, ue_attached := False\<rparr>"
    by (rule stored_on_detach_ue_action)
  then show "ue_usim_imsi (stored v') = None" and "ue_usim_k (stored v') = None"
    and "ue_usim_opc (stored v') = None" and "subscriber_fields_set (stored v') = 0"
    and "\<not> ue_attached (stored v')"
    by (simp_all add: subscriber_fields_set_def)
next
  assume "reachable s"
  then have "subscriber_fields_set s = 0 \<or> subscriber_fields_set s = 3"
    by (rule triple_reachable)
  then show "subscriber_fields_set s \<noteq> 1" and "subscriber_fields_set s \<noteq> 2"
    by auto
qed

text \<open>Attach, then detach, in the test bed.\<close>

theorem subscriber_triple_atomicity_witness:
  "completed (on_attach_ue_action test_env test_config test_params fresh_charm) \<and>
   ue_usim_imsi (stored (outcome (on_attach_ue_action test_env test_config test_params
      fresh_charm))) = Some ''001010000000001'' \<and>
   subscriber_fields_set (stored (outcome (on_attach_ue_action test_env test_config
      test_params fresh_charm))) = 3 \<and>
   ue_attached (stored (outcome (on_attach_ue_action test_env test_config test_params
      fresh_charm))) \<and>
   completed (on_detach_ue_action test_env test_config
      (outcome (on_attach_ue_action test_env test_config test_params fresh_charm))) \<and>
   subscriber_fields_set (stored (outcome (on_detach_ue_action test_env test_config
      (outcome (on_attach_ue_action test_env test_config test_params fresh_charm))))) = 0 \<and>
   \<not> ue_attached (stored (outcome (on_detach_ue_action test_env test_config
      (outcome (on_attach_ue_action test_env test_config test_params fresh_charm))))) \<and>
   reachable (stored (outcome (on_attach_ue_action test_env test_config test_params
      fresh_charm))) \<and>
   subscriber_fields_set (stored (outcome (on_attach_ue_action test_env test_config
      test_params fresh_charm))) \<noteq> 1"
proof -
  let ?a = "on_attach_ue_action test_env test_config test_params fresh_charm"
  let ?d = "on_detach_ue_action test_env test_config (outcome ?a)"
  have ca: "completed ?a" by (rule attach_completes_in_test_env)
  have cd: "completed ?d" by (rule detach_completes_in_test_env)
  have a: "?a = Inr (outcome ?a)" using ca by (rule completed_outcome)
  have d: "?d = Inr (outcome ?d)" using cd by (rule completed_outcome)
  have "handle test_env test_config (AttachUe test_params) fresh_charm = Inr (outcome ?a)"
    using a by simp
  with reachable_fresh have r: "reachable (stored (outcome ?a))"
    by (rule reachable.event)
  from subscriber_triple_atomicity[of test_env test_config test_params fresh_charm
      "outcome ?a" "outcome ?a" "outcome ?d" "stored (outcome ?a)"] a d r ca cd
  show ?thesis by (simp add: test_params_def)
qed

subsection \<open>Failures\<close>



text \<open>
  C8, as the code has it. A placeholder is not an error when it is a name that neither
  the charm passes nor the template library defines (\<^verbatim>\<open>cmd\<close>, say): it renders as
  the empty text, so that the template renders as it would without it. A name of the
  library's own prints what the library has for it. Whatever names the template
  carries, \<^verbatim>\<open>_configure_service\<close> writes the unit and reloads the daemon. What does
  make the configure step fail is a template that cannot be opened (or a write or
  reload that fails); then the handler stops there: a config-changed whose template is
  missing raises and has restarted nothing, and in general a handler that raises has
  asked for no restart.
\<close>

theorem undefined_placeholder_renders_empty:
  "(variable_name n \<and> n \<noteq> ''command'' \<and> n \<notin> set jinja_own_names \<longrightarrow>
      render own_text (before @ Var n # after) command
        = render own_text (before @ after) command) \<and>
   (m \<in> set jinja_own_names \<longrightarrow> render own_text [Var m] command = own_text m) \<and>
   (template_files env service_template = Some t \<and>
    \<not> raises env (WriteFile service_path (render (jinja_text env) t command)) \<and>
    \<not> raises env SystemctlDaemonReload \<longrightarrow>
      configure_service env command service_template service_path w
        = Inr (w\<lparr>calls := calls w @
                 [WriteFile service_path (render (jinja_text env) t command),
                  SystemctlDaemonReload]\<rparr>)) \<and>
   (template_files env SRS_ENB_SERVICE_TEMPLATE = None \<longrightarrow>
      \<not> completed (on_config_changed env cfg w) \<and>
      restarts (outcome (on_config_changed env cfg w)) = restarts w) \<and>
   (\<not> completed (handle env cfg ev w) \<longrightarrow>
      restarts (outcome (handle env cfg ev w)) = restarts w)"
proof (intro conjI impI)
  assume "variable_name n \<and> n \<noteq> ''command'' \<and> n \<notin> set jinja_own_names"
  then show "render own_text (before @ Var n # after) command
      = render own_text (before @ after) command"
    by (simp add: render_def)
next
  assume "m \<in> set jinja_own_names"
  then show "render own_text [Var m] command = own_text m"
    by (auto simp: render_def jinja_own_names_def)
next
  assume "template_files env service_template = Some t \<and>
    \<not> raises env (WriteFile service_path (render (jinja_text env) t command)) \<and>
    \<not> raises env SystemctlDaemonReload"
  then show "configure_service env command service_template service_path w
        = Inr (w\<lparr>calls := calls w @
                 [WriteFile service_path (render (jinja_text env) t command),
                  SystemctlDaemonReload]\<rparr>)"
    by (simp add: configure_service_def andthen_def ext_def record_call_def)
next
  assume none: "template_files env SRS_ENB_SERVICE_TEMPLATE = None"
  then show nc: "\<not> completed (on_config_changed env cfg w)"
    by (simp add: on_config_changed_def step_defs)
  then show "restarts (outcome (on_config_changed env cfg w)) = restarts w"
    by (rule restarts_on_config_changed_raised)
next
  assume "\<not> completed (handle env cfg ev w)"
  then show "restarts (outcome (handle env cfg ev w)) = restarts w"
    by (rule restarts_handle_raised)
qed

text \<open>
  A template with the placeholder \<^verbatim>\<open>cmd\<close> in place of \<^verbatim>\<open>command\<close>, on a started
  charm: no error, the unit is written without the command, and the service restarted.
\<close>

theorem undefined_placeholder_counterexample:
  "completed (on_config_changed
      (test_env\<lparr>template_files := [SRS_ENB_SERVICE_TEMPLATE \<mapsto> [Text ''ExecStart='', Var ''cmd'']]\<rparr>)
      test_config
      (fresh_charm\<lparr>stored := stored_default\<lparr>installed := True, started := True\<rparr>\<rparr>)) \<and>
   calls (outcome (on_config_changed
      (test_env\<lparr>template_files := [SRS_ENB_SERVICE_TEMPLATE \<mapsto> [Text ''ExecStart='', Var ''cmd'']]\<rparr>)
      test_config
      (fresh_charm\<lparr>stored := stored_default\<lparr>installed := True, started := True\<rparr>\<rparr>)))
    = [WriteFile ''/etc/systemd/system/srsenb.service'' ''ExecStart='',
       SystemctlDaemonReload, ServiceRestart ''srsenb'' True]"
  by (simp add: on_config_changed_def step_defs test_env_def fresh_charm_def render_def
      jinja_own_names_def
      SRS_ENB_SERVICE_TEMPLATE_def SRS_ENB_SERVICE_PATH_def SRS_ENB_SERVICE_def)

theorem undefined_placeholder_renders_empty_witness:
  "variable_name ''cmd'' \<and>
   render jinja_default_text [Text ''ExecStart='', Var ''cmd'', Text ''!'']
       ''/build/srsenb/src/srsenb''
     = ''ExecStart=!'' \<and>
   render jinja_default_text [Var ''self''] ''/build/srsenb/src/srsenb''
     = ''<TemplateReference None>'' \<and>
   configure_service test_env ''/build/srsenb/src/srsenb'' SRS_ENB_SERVICE_TEMPLATE
       SRS_ENB_SERVICE_PATH fresh_charm
     = Inr (fresh_charm\<lparr>calls := [WriteFile SRS_ENB_SERVICE_PATH
               (render jinja_default_text srsenb_service_template ''/build/srsenb/src/srsenb''),
             SystemctlDaemonReload]\<rparr>) \<and>
   \<not> completed (on_config_changed (test_env\<lparr>template_files := Map.empty\<rparr>) test_config
       (fresh_charm\<lparr>stored := stored_default\<lparr>installed := True, started := True\<rparr>\<rparr>)) \<and>
   restarts (outcome (on_config_changed (test_env\<lparr>template_files := Map.empty\<rparr>) test_config
       (fresh_charm\<lparr>stored := stored_default\<lparr>installed := True, started := True\<rparr>\<rparr>))) = [] \<and>
   restarts (outcome (handle (test_env\<lparr>template_files := Map.empty\<rparr>) test_config
       (MmeRelationChanged (Some ''mme/0'') [''mme/0'' \<mapsto> [''mme-addr'' \<mapsto> ''10.0.0.1'']])
       (fresh_charm\<lparr>stored := stored_default\<lparr>installed := True, started := True\<rparr>\<rparr>))) = []"
proof -
  let ?w = "fresh_charm\<lparr>stored := stored_default\<lparr>installed := True, started := True\<rparr>\<rparr>"
  let ?env = "test_env\<lparr>template_files := Map.empty\<rparr>"
  let ?ev = "MmeRelationChanged (Some ''mme/0'') [''mme/0'' \<mapsto> [''mme-addr'' \<mapsto> ''10.0.0.1'']]"
  have r0: "restarts ?w = []" by (simp add: restarts_def fresh_charm_def)
  have nc: "\<not> completed (handle ?env test_config ?ev ?w)"
    by (simp add: mme_relation_changed_def step_defs test_env_def is_octet_def digit_value_def)
  have v: "variable_name ''cmd''"
    by (simp add: variable_name_def is_identifier_def name_start_def name_char_def
        reserved_words_def)
  have o: "''cmd'' \<notin> set jinja_own_names" "''self'' \<in> set jinja_own_names"
    by (simp_all add: jinja_own_names_def)
  have a: "render jinja_default_text ([Text ''ExecStart=''] @ Var ''cmd'' # [Text ''!''])
        ''/build/srsenb/src/srsenb''
      = render jinja_default_text ([Text ''ExecStart=''] @ [Text ''!''])
        ''/build/srsenb/src/srsenb''"
    using undefined_placeholder_renders_empty[where n="''cmd''"
        and before="[Text ''ExecStart='']" and after="[Text ''!'']"
        and command="''/build/srsenb/src/srsenb''" and own_text=jinja_default_text,
        THEN conjunct1] v o(1)
    by simp
  have a': "render jinja_default_text [Var ''self''] ''/build/srsenb/src/srsenb''
      = jinja_default_text ''self''"
    using undefined_placeholder_renders_empty[where m="''self''"
        and command="''/build/srsenb/src/srsenb''" and own_text=jinja_default_text,
        THEN conjunct2, THEN conjunct1] o(2)
    by blast
  have b: "configure_service test_env ''/build/srsenb/src/srsenb'' SRS_ENB_SERVICE_TEMPLATE
       SRS_ENB_SERVICE_PATH fresh_charm
     = Inr (fresh_charm\<lparr>calls := calls fresh_charm @ [WriteFile SRS_ENB_SERVICE_PATH
               (render (jinja_text test_env) srsenb_service_template
                  ''/build/srsenb/src/srsenb''),
             SystemctlDaemonReload]\<rparr>)"
    using undefined_placeholder_renders_empty[where env=test_env
        and service_template=SRS_ENB_SERVICE_TEMPLATE and t=srsenb_service_template
        and service_path=SRS_ENB_SERVICE_PATH and command="''/build/srsenb/src/srsenb''"
        and w=fresh_charm, THEN conjunct2, THEN conjunct2, THEN conjunct1]
    by (simp add: test_env_def SRS_ENB_SERVICE_TEMPLATE_def SRS_UE_SERVICE_TEMPLATE_def)
  have c: "\<not> completed (on_config_changed ?env test_config ?w) \<and>
      restarts (outcome (on_config_changed ?env test_config ?w)) = restarts ?w"
    using undefined_placeholder_renders_empty[where env="?env" and cfg=test_config
        and w="?w", THEN conjunct2, THEN conjunct2, THEN conjunct2, THEN conjunct1]
    by (simp add: test_env_def)
  have d: "restarts (outcome (handle ?env test_config ?ev ?w)) = restarts ?w"
    using undefined_placeholder_renders_empty[where env="?env" and cfg=test_config
        and w="?w" and ev="?ev", THEN conjunct2, THEN conjunct2, THEN conjunct2,
        THEN conjunct2] nc
    by blast
  have jt: "jinja_text test_env = jinja_default_text" by (simp add: test_env_def)
  from v a a' b c d r0 jt show ?thesis
    by (simp add: render_def fresh_charm_def jinja_default_text_def)
qed

subsection \<open>Flags and missing fields\<close>




end
